theory Spec2Isabelle
  imports Main "HOL-Library.AList"
begin

section \<open>Values of the host language\<close>

text \<open>
  The providers store arbitrary JavaScript values. The embedding covers the values that
  JSON can carry: \<open>null\<close>, booleans, numbers (integers only: floating point is left
  out), strings, arrays and plain objects. An object is an association list in insertion
  order with pairwise distinct keys (the runtime lists property names that are array
  indices first; that reordering is left out); an array is the list of its elements. The value
  \<open>undefined\<close> is not a \<open>jsval\<close>: an expression that may be \<open>undefined\<close> has type
  \<open>jsval option\<close> and \<open>None\<close> stands for it.

  Values are immutable here. The source mutates cached objects in place
  (\<open>_.set\<close>, \<open>fetched.push\<close>) and immediately stores the same object back in the
  collection, so the embedding returns the updated value instead. Object identity is
  not represented: every value handed to \<open>set\<close> is taken as fresh, sharing no object
  with the cached document of the root. Where the value does hold that cached object
  (the object \<open>get\<close> returned, handed back to \<open>set\<close>; the array \<open>push\<close> builds around
  an object cached under a root-only key; the array cached under a root-only key that
  is an index, pushed to), the in-place \<open>_.set\<close> of the source closes a cycle and
  \<open>JSON.stringify\<close> throws a \<open>TypeError\<close> after the collection was changed and before
  the table is written. Such calls are outside the embedding: a statement about \<open>set\<close>
  below is a statement about a call with a fresh value, and the calls of \<open>push\<close> that
  are evaluated below meet none of these cases.
\<close>

datatype jsval =
    JNull
  | JBool bool
  | JNum int
  | JStr string
  | JArr "jsval list"
  | JObj "(string \<times> jsval) list"

text \<open>Truthiness, as used by \<open>||\<close> and \<open>!\<close>.\<close>

fun truthy :: "jsval \<Rightarrow> bool" where
  "truthy JNull = False"
| "truthy (JBool b) = b"
| "truthy (JNum n) = (n \<noteq> 0)"
| "truthy (JStr s) = (s \<noteq> [])"
| "truthy (JArr xs) = True"
| "truthy (JObj kvs) = True"

text \<open>\<open>a || b\<close> where \<open>a\<close> may be \<open>undefined\<close>.\<close>

definition js_or :: "jsval option \<Rightarrow> jsval \<Rightarrow> jsval" where
  "js_or a b = (case a of None \<Rightarrow> b | Some v \<Rightarrow> if truthy v then v else b)"

text \<open>\<open>Array.isArray\<close> and lodash's \<open>isObject\<close> (arrays and objects).\<close>

fun isArray :: "jsval \<Rightarrow> bool" where
  "isArray (JArr xs) = True"
| "isArray v = False"

fun isObject :: "jsval \<Rightarrow> bool" where
  "isObject (JArr xs) = True"
| "isObject (JObj kvs) = True"
| "isObject v = False"

subsection \<open>String operations\<close>

text \<open>\<open>key.includes(".")\<close>, \<open>key.split(".")\<close> and \<open>array.join(".")\<close>.\<close>

definition includes_dot :: "string \<Rightarrow> bool" where
  "includes_dot key = (CHR ''.'' \<in> set key)"

fun split_dot :: "string \<Rightarrow> string list" where
  "split_dot [] = [[]]"
| "split_dot (c # cs) =
     (if c = CHR ''.'' then [] # split_dot cs
      else (case split_dot cs of [] \<Rightarrow> [[c]] | w # ws \<Rightarrow> (c # w) # ws))"

fun join_dot :: "string list \<Rightarrow> string" where
  "join_dot [] = []"
| "join_dot [w] = w"
| "join_dot (w # ws) = w @ CHR ''.'' # join_dot ws"

subsection \<open>Array indices\<close>

text \<open>
  A property name is an array index when it is the canonical decimal numeral of a
  natural number: \<open>0\<close>, or digits without a leading zero (lodash \<open>isIndex\<close> on strings,
  up to the bound \<open>2^53 - 1\<close>).
\<close>

definition is_digit :: "char \<Rightarrow> bool" where
  "is_digit c = (48 \<le> (of_char c :: nat) \<and> (of_char c :: nat) \<le> 57)"

definition digit_val :: "char \<Rightarrow> nat" where
  "digit_val c = (of_char c :: nat) - 48"

definition digits_val :: "string \<Rightarrow> nat" where
  "digits_val s = foldl (\<lambda>n c. 10 * n + digit_val c) 0 s"

definition isIndex :: "string \<Rightarrow> bool" where
  "isIndex s = (s \<noteq> [] \<and> list_all is_digit s \<and> (if hd s = CHR ''0'' then length s = 1 else True)
     \<and> digits_val s < 2 ^ 53 - 1)"

definition index_of :: "string \<Rightarrow> nat option" where
  "index_of s = (if isIndex s then Some (digits_val s) else None)"

section \<open>The lodash functions used by the providers\<close>

text \<open>
  The providers import \<open>_\<close> (lodash) through the dependency file \<open>deps.ts\<close>, which is
  not among the sources. \<open>_.get\<close>, \<open>_.set\<close> and \<open>_.has\<close> are the path resolver of the
  specification (\<open>resolveGet\<close>, \<open>resolveSet\<close>, \<open>resolveHas\<close>); where the specification
  is silent (documents that are not mappings, arrays met on the way) the definitions
  follow lodash 4.17, for property names without bracket notation. Properties inherited
  from a prototype are left out, and an array keeps only its elements: assigning a
  property that is not an index to an array leaves the array as it is, and assigning
  beyond the end pads with \<open>null\<close>.
\<close>

text \<open>\<open>object[key]\<close>: reading a property; \<open>None\<close> is \<open>undefined\<close>.\<close>

fun js_prop :: "jsval \<Rightarrow> string \<Rightarrow> jsval option" where
  "js_prop (JObj kvs) k = map_of kvs k"
| "js_prop (JArr xs) k =
     (if k = ''length'' then Some (JNum (int (length xs)))
      else (case index_of k of
              Some i \<Rightarrow> if i < length xs then Some (xs ! i) else None
            | None \<Rightarrow> None))"
| "js_prop (JStr s) k =
     (if k = ''length'' then Some (JNum (int (length s)))
      else (case index_of k of
              Some i \<Rightarrow> if i < length s then Some (JStr [s ! i]) else None
            | None \<Rightarrow> None))"
| "js_prop v k = None"

text \<open>\<open>hasOwnProperty.call(object, key)\<close>.\<close>

fun has_own :: "jsval \<Rightarrow> string \<Rightarrow> bool" where
  "has_own (JObj kvs) k = (k \<in> set (map fst kvs))"
| "has_own (JArr xs) k =
     (k = ''length'' \<or> (case index_of k of Some i \<Rightarrow> i < length xs | None \<Rightarrow> False))"
| "has_own (JStr s) k =
     (k = ''length'' \<or> (case index_of k of Some i \<Rightarrow> i < length s | None \<Rightarrow> False))"
| "has_own v k = False"

text \<open>
  \<open>castPath\<close> of a string: the string itself when it is a key (it has no dot, or the
  object has a property of that very name), its dot-separated segments otherwise.
\<close>

definition isKey :: "string \<Rightarrow> jsval \<Rightarrow> bool" where
  "isKey s object =
     (if includes_dot s then (case object of JObj kvs \<Rightarrow> s \<in> set (map fst kvs) | _ \<Rightarrow> False)
      else True)"

definition castPath :: "string \<Rightarrow> jsval \<Rightarrow> string list" where
  "castPath s object = (if isKey s object then [s] else split_dot s)"

text \<open>\<open>baseGet\<close>: the walk stops at \<open>null\<close> or \<open>undefined\<close>.\<close>

fun baseGet :: "jsval option \<Rightarrow> string list \<Rightarrow> jsval option" where
  "baseGet object [] = object"
| "baseGet None (k # ks) = None"
| "baseGet (Some JNull) (k # ks) = None"
| "baseGet (Some v) (k # ks) = baseGet (js_prop v k) ks"

text \<open>
  Modelled from the spec: \<open>_.get(object, path, defaultValue)\<close> of the missing
  \<open>deps.ts\<close>, with a string path (\<open>resolveGet\<close>: the path is walked through nested
  mappings; a segment that is absent, or met on something that has no such property,
  gives the default).
\<close>

definition lodash_get :: "jsval option \<Rightarrow> string \<Rightarrow> jsval \<Rightarrow> jsval" where
  "lodash_get object path defaultValue =
     (case object of
        None \<Rightarrow> defaultValue
      | Some JNull \<Rightarrow> defaultValue
      | Some v \<Rightarrow> (case baseGet (Some v) (castPath path v) of
                     None \<Rightarrow> defaultValue
                   | Some r \<Rightarrow> r))"

text \<open>\<open>hasPath\<close> with \<open>baseHas\<close>: every segment must be an own property.\<close>

fun hasPath :: "jsval \<Rightarrow> string list \<Rightarrow> bool" where
  "hasPath object [] = False"
| "hasPath object [k] = has_own object k"
| "hasPath object (k # ks) =
     (has_own object k \<and> (case js_prop object k of None \<Rightarrow> False | Some v \<Rightarrow> hasPath v ks))"

text \<open>
  Modelled from the spec: \<open>_.has(object, path)\<close> of the missing \<open>deps.ts\<close>, with a
  string path (\<open>resolveHas\<close>: the traversal of \<open>resolveGet\<close>, true when the last
  segment exists, whatever its value).
\<close>

definition lodash_has :: "jsval option \<Rightarrow> string \<Rightarrow> bool" where
  "lodash_has object path =
     (case object of
        None \<Rightarrow> False
      | Some JNull \<Rightarrow> False
      | Some v \<Rightarrow> hasPath v (castPath path v))"

text \<open>\<open>nested[key] = newValue\<close> on an object or an array.\<close>

fun assignValue :: "jsval \<Rightarrow> string \<Rightarrow> jsval \<Rightarrow> jsval" where
  "assignValue (JObj kvs) k v = JObj (AList.update k v kvs)"
| "assignValue (JArr xs) k v =
     (case index_of k of
        Some i \<Rightarrow> JArr (if i < length xs then xs[i := v]
                        else xs @ replicate (i - length xs) JNull @ [v])
      | None \<Rightarrow> JArr xs)"
| "assignValue object k v = object"

definition unsafe_key :: "string \<Rightarrow> bool" where
  "unsafe_key k = (k = ''__proto__'' \<or> k = ''constructor'' \<or> k = ''prototype'')"

text \<open>
  \<open>baseSet\<close>: a missing or non-object intermediate level is created, as an array when
  the next segment is an index and as an object otherwise.
\<close>

fun baseSet :: "jsval \<Rightarrow> string list \<Rightarrow> jsval \<Rightarrow> jsval" where
  "baseSet object [] v = object"
| "baseSet object [k] v = (if unsafe_key k then object else assignValue object k v)"
| "baseSet object (k # k' # ks) v =
     (if unsafe_key k then object
      else
        let fresh = (if isIndex k' then JArr [] else JObj []);
            newValue = (case js_prop object k of
                          None \<Rightarrow> fresh
                        | Some objValue \<Rightarrow> if isObject objValue then objValue else fresh)
        in assignValue object k (baseSet newValue (k' # ks) v))"

text \<open>
  Modelled from the spec: \<open>_.set(object, path, value)\<close> of the missing \<open>deps.ts\<close>,
  with an array path (\<open>resolveSet\<close>: intermediate mappings are created as needed and
  the leaf is set). The object is never \<open>null\<close> here; an object that is neither a
  mapping nor an array is returned as it is.
\<close>

definition lodash_set :: "jsval \<Rightarrow> string list \<Rightarrow> jsval \<Rightarrow> jsval" where
  "lodash_set object path v = (if isObject object then baseSet object path v else object)"

section \<open>Serialization\<close>

text \<open>
  \<open>JSON.stringify\<close> on the values above: no white space, members in property order,
  strings quoted with the escapes of the language standard.
\<close>

definition hex_digit :: "nat \<Rightarrow> char" where
  "hex_digit n = (if n < 10 then char_of (48 + n) else char_of (87 + n))"

definition escape_char :: "char \<Rightarrow> string" where
  "escape_char c =
     (if c = CHR 0x22 then [CHR 0x5C, CHR 0x22]
      else if c = CHR 0x5C then [CHR 0x5C, CHR 0x5C]
      else if c = CHR 0x08 then [CHR 0x5C, CHR ''b'']
      else if c = CHR 0x09 then [CHR 0x5C, CHR ''t'']
      else if c = CHR 0x0A then [CHR 0x5C, CHR ''n'']
      else if c = CHR 0x0C then [CHR 0x5C, CHR ''f'']
      else if c = CHR 0x0D then [CHR 0x5C, CHR ''r'']
      else if (of_char c :: nat) < 32
        then [CHR 0x5C, CHR ''u'', CHR ''0'', CHR ''0'',
              hex_digit (of_char c div 16), hex_digit (of_char c mod 16)]
      else [c])"

definition quote :: "string \<Rightarrow> string" where
  "quote s = CHR 0x22 # concat (map escape_char s) @ [CHR 0x22]"

fun show_nat :: "nat \<Rightarrow> string" where
  "show_nat n = (if n < 10 then [char_of (48 + n)]
                 else show_nat (n div 10) @ [char_of (48 + n mod 10)])"

definition show_int :: "int \<Rightarrow> string" where
  "show_int i = (if i < 0 then CHR ''-'' # show_nat (nat (- i)) else show_nat (nat i))"

fun commas :: "string list \<Rightarrow> string" where
  "commas [] = []"
| "commas [w] = w"
| "commas (w # ws) = w @ CHR '','' # commas ws"

fun JSON_stringify :: "jsval \<Rightarrow> string"
  and stringify_elements :: "jsval list \<Rightarrow> string list"
  and stringify_members :: "(string \<times> jsval) list \<Rightarrow> string list" where
  "JSON_stringify JNull = ''null''"
| "JSON_stringify (JBool b) = (if b then ''true'' else ''false'')"
| "JSON_stringify (JNum n) = show_int n"
| "JSON_stringify (JStr s) = quote s"
| "JSON_stringify (JArr xs) = CHR ''['' # commas (stringify_elements xs) @ '']''"
| "JSON_stringify (JObj kvs) = CHR ''{'' # commas (stringify_members kvs) @ ''}''"
| "stringify_elements [] = []"
| "stringify_elements (x # xs) = JSON_stringify x # stringify_elements xs"
| "stringify_members [] = []"
| "stringify_members ((k, v) # kvs) =
     (quote k @ CHR '':'' # JSON_stringify v) # stringify_members kvs"

text \<open>
  \<open>JSON.parse\<close>: a recursive-descent reader of the JSON grammar, \<open>None\<close> when the
  runtime throws a syntax error. Numerals with a fraction or an exponent and \<open>\u\<close>
  escapes beyond one byte denote values outside \<open>jsval\<close> and are refused as well. The
  fuel bounds the nesting; the length of the text is always enough.
\<close>

definition is_ws :: "char \<Rightarrow> bool" where
  "is_ws c = (c = CHR 0x20 \<or> c = CHR 0x09 \<or> c = CHR 0x0A \<or> c = CHR 0x0D)"

definition skip_ws :: "string \<Rightarrow> string" where
  "skip_ws s = dropWhile is_ws s"

fun strip_prefix :: "string \<Rightarrow> string \<Rightarrow> string option" where
  "strip_prefix [] s = Some s"
| "strip_prefix (p # ps) [] = None"
| "strip_prefix (p # ps) (c # cs) = (if p = c then strip_prefix ps cs else None)"

definition hex_val :: "char \<Rightarrow> nat option" where
  "hex_val c =
     (let n = (of_char c :: nat) in
      if 48 \<le> n \<and> n \<le> 57 then Some (n - 48)
      else if 97 \<le> n \<and> n \<le> 102 then Some (n - 87)
      else if 65 \<le> n \<and> n \<le> 70 then Some (n - 55)
      else None)"

definition unicode4 :: "string \<Rightarrow> char option" where
  "unicode4 hs =
     (case map hex_val hs of
        [Some a, Some b, Some c, Some d] \<Rightarrow>
          if a = 0 \<and> b = 0 then Some (char_of (16 * c + d)) else None
      | _ \<Rightarrow> None)"

definition unescape :: "char \<Rightarrow> char option" where
  "unescape e =
     (if e = CHR 0x22 then Some (CHR 0x22)
      else if e = CHR 0x5C then Some (CHR 0x5C)
      else if e = CHR ''/'' then Some (CHR ''/'')
      else if e = CHR ''b'' then Some (CHR 0x08)
      else if e = CHR ''f'' then Some (CHR 0x0C)
      else if e = CHR ''n'' then Some (CHR 0x0A)
      else if e = CHR ''r'' then Some (CHR 0x0D)
      else if e = CHR ''t'' then Some (CHR 0x09)
      else None)"

text \<open>The characters of a string literal after its opening quote, and the rest.\<close>

fun parse_chars :: "string \<Rightarrow> (string \<times> string) option" where
  "parse_chars [] = None"
| "parse_chars (c # cs) =
     (if c = CHR 0x22 then Some ([], cs)
      else if c = CHR 0x5C then
        (case cs of
           [] \<Rightarrow> None
         | e # cs' \<Rightarrow>
             if e = CHR ''u'' then
               (case unicode4 (take 4 cs') of
                  None \<Rightarrow> None
                | Some ch \<Rightarrow> (case parse_chars (drop 4 cs') of
                               None \<Rightarrow> None
                             | Some (w, r) \<Rightarrow> Some (ch # w, r)))
             else
               (case unescape e of
                  None \<Rightarrow> None
                | Some ch \<Rightarrow> (case parse_chars cs' of
                               None \<Rightarrow> None
                             | Some (w, r) \<Rightarrow> Some (ch # w, r))))
      else if (of_char c :: nat) < 32 then None
      else (case parse_chars cs of
              None \<Rightarrow> None
            | Some (w, r) \<Rightarrow> Some (c # w, r)))"

definition parse_number :: "string \<Rightarrow> (jsval \<times> string) option" where
  "parse_number s =
     (let neg = (s \<noteq> [] \<and> hd s = CHR ''-'');
          s1 = (if neg then tl s else s);
          ds = takeWhile is_digit s1;
          r = dropWhile is_digit s1
      in if ds = [] \<or> (hd ds = CHR ''0'' \<and> length ds > 1) then None
         else if r \<noteq> [] \<and> (hd r = CHR ''.'' \<or> hd r = CHR ''e'' \<or> hd r = CHR ''E'') then None
         else Some (JNum (if neg then - int (digits_val ds) else int (digits_val ds)), r))"

text \<open>A repeated member name keeps its first position and its last value.\<close>

definition object_of :: "(string \<times> jsval) list \<Rightarrow> jsval" where
  "object_of kvs = JObj (foldl (\<lambda>acc kv. AList.update (fst kv) (snd kv) acc) [] kvs)"

fun parse_value :: "nat \<Rightarrow> string \<Rightarrow> (jsval \<times> string) option"
  and parse_elements :: "nat \<Rightarrow> string \<Rightarrow> (jsval list \<times> string) option"
  and parse_members :: "nat \<Rightarrow> string \<Rightarrow> ((string \<times> jsval) list \<times> string) option" where
  "parse_value 0 s = None"
| "parse_value (Suc n) s =
     (case skip_ws s of
        [] \<Rightarrow> None
      | c # r \<Rightarrow>
          if c = CHR 0x22 then
            (case parse_chars r of None \<Rightarrow> None | Some (w, r1) \<Rightarrow> Some (JStr w, r1))
          else if c = CHR ''['' then
            (if skip_ws r \<noteq> [] \<and> hd (skip_ws r) = CHR '']'' then Some (JArr [], tl (skip_ws r))
             else (case parse_elements n r of
                     None \<Rightarrow> None
                   | Some (vs, r1) \<Rightarrow> Some (JArr vs, r1)))
          else if c = CHR ''{'' then
            (if skip_ws r \<noteq> [] \<and> hd (skip_ws r) = CHR ''}'' then Some (JObj [], tl (skip_ws r))
             else (case parse_members n r of
                     None \<Rightarrow> None
                   | Some (kvs, r1) \<Rightarrow> Some (object_of kvs, r1)))
          else if c = CHR ''n'' then
            (case strip_prefix ''ull'' r of None \<Rightarrow> None | Some r1 \<Rightarrow> Some (JNull, r1))
          else if c = CHR ''t'' then
            (case strip_prefix ''rue'' r of None \<Rightarrow> None | Some r1 \<Rightarrow> Some (JBool True, r1))
          else if c = CHR ''f'' then
            (case strip_prefix ''alse'' r of None \<Rightarrow> None | Some r1 \<Rightarrow> Some (JBool False, r1))
          else parse_number (c # r))"
| "parse_elements 0 s = None"
| "parse_elements (Suc n) s =
     (case parse_value n s of
        None \<Rightarrow> None
      | Some (v, r) \<Rightarrow>
          (case skip_ws r of
             [] \<Rightarrow> None
           | c # r1 \<Rightarrow>
               if c = CHR '','' then
                 (case parse_elements n r1 of
                    None \<Rightarrow> None
                  | Some (vs, r2) \<Rightarrow> Some (v # vs, r2))
               else if c = CHR '']'' then Some ([v], r1)
               else None))"
| "parse_members 0 s = None"
| "parse_members (Suc n) s =
     (case skip_ws s of
        [] \<Rightarrow> None
      | q # r \<Rightarrow>
          if q \<noteq> CHR 0x22 then None
          else
            (case parse_chars r of
               None \<Rightarrow> None
             | Some (k, r1) \<Rightarrow>
                 (case skip_ws r1 of
                    [] \<Rightarrow> None
                  | c # r2 \<Rightarrow>
                      if c \<noteq> CHR '':'' then None
                      else
                        (case parse_value n r2 of
                           None \<Rightarrow> None
                         | Some (v, r3) \<Rightarrow>
                             (case skip_ws r3 of
                                [] \<Rightarrow> None
                              | d # r4 \<Rightarrow>
                                  if d = CHR '','' then
                                    (case parse_members n r4 of
                                       None \<Rightarrow> None
                                     | Some (kvs, r5) \<Rightarrow> Some ((k, v) # kvs, r5))
                                  else if d = CHR ''}'' then Some ([(k, v)], r4)
                                  else None)))))"

definition JSON_parse :: "string \<Rightarrow> jsval option" where
  "JSON_parse s =
     (case parse_value (Suc (length s)) s of
        None \<Rightarrow> None
      | Some (v, r) \<Rightarrow> if skip_ws r = [] then Some v else None)"

section \<open>The backend table\<close>

text \<open>
  Modelled from the spec: the backend store behind the database clients of the missing
  \<open>deps.ts\<close>. The table holds rows of a key and a serialized value, in insertion
  order; nothing makes the key unique. The functions below are the statements the
  providers issue: SELECT of all rows, SELECT, UPDATE and DELETE by key, and INSERT.
  The \<open>id\<close> column of the SQLite table is left out: no statement names it. The rows
  that \<open>SELECT *\<close> returns in the SQLite provider carry it, so the row that its \<open>set\<close>
  returns to the caller has one field more than the row here.
\<close>

record row =
  rkey :: string
  rvalue :: string

type_synonym table = "row list"

definition select_all :: "table \<Rightarrow> row list" where
  "select_all t = t"

definition select_by_key :: "table \<Rightarrow> string \<Rightarrow> row list" where
  "select_by_key t k = filter (\<lambda>r. rkey r = k) t"

definition insert_row :: "table \<Rightarrow> string \<Rightarrow> string \<Rightarrow> table" where
  "insert_row t k v = t @ [\<lparr>rkey = k, rvalue = v\<rparr>]"

definition update_by_key :: "table \<Rightarrow> string \<Rightarrow> string \<Rightarrow> table" where
  "update_by_key t v k = map (\<lambda>r. if rkey r = k then r\<lparr>rvalue := v\<rparr> else r) t"

definition delete_by_key :: "table \<Rightarrow> string \<Rightarrow> table" where
  "delete_by_key t k = filter (\<lambda>r. rkey r \<noteq> k) t"

text \<open>\<open>rows[0]\<close>: \<open>undefined\<close> on an empty result.\<close>

definition first_row :: "row list \<Rightarrow> row option" where
  "first_row rs = (case rs of [] \<Rightarrow> None | r # _ \<Rightarrow> Some r)"

section \<open>The providers\<close>

text \<open>
  A provider owns its collection and talks to one table, which exists.
  Modelled from the spec: the collection (class \<open>Collection\<close> of the missing
  \<open>deps.ts\<close>) is the cache, a mapping from root key to document with \<open>get\<close>, \<open>set\<close>,
  \<open>has\<close> and \<open>delete\<close>.
\<close>

record provider =
  collection :: "string \<rightharpoonup> jsval"
  db :: table

text \<open>\<open>this.collection.get(key) || {}\<close>.\<close>

definition cached_or_empty :: "provider \<Rightarrow> string \<Rightarrow> jsval" where
  "cached_or_empty st key = js_or (collection st key) (JObj [])"

subsection \<open>init\<close>

text \<open>
  Both providers copy every row into the collection, \<open>row.value\<close> as it is read from
  the table. (The PostgreSQL provider creates the table here, the SQLite provider in
  its constructor.)
\<close>

definition load_rows :: "row list \<Rightarrow> (string \<rightharpoonup> jsval) \<Rightarrow> (string \<rightharpoonup> jsval)" where
  "load_rows rs c = foldl (\<lambda>c r. c(rkey r \<mapsto> JStr (rvalue r))) c rs"

definition SqliteProvider_init :: "provider \<Rightarrow> provider" where
  "SqliteProvider_init st = st\<lparr>collection := load_rows (select_all (db st)) (collection st)\<rparr>"

definition PostgresProvider_init :: "provider \<Rightarrow> provider" where
  "PostgresProvider_init st = st\<lparr>collection := load_rows (select_all (db st)) (collection st)\<rparr>"

subsection \<open>delete\<close>

definition SqliteProvider_delete :: "string \<Rightarrow> provider \<Rightarrow> provider" where
  "SqliteProvider_delete key st =
     \<lparr>collection = (collection st)(key := None), db = delete_by_key (db st) key\<rparr>"

definition PostgresProvider_delete :: "string \<Rightarrow> provider \<Rightarrow> provider" where
  "PostgresProvider_delete key st =
     \<lparr>collection = (collection st)(key := None), db = delete_by_key (db st) key\<rparr>"

subsection \<open>set\<close>

text \<open>
  The SQLite provider: \<open>unparsed\<close> is the list of segments after the root. The path
  handed to \<open>_.set\<close> is \<open>unparsed\<close> only when it has more than one segment, and the row
  is inserted only when the probe returns fewer than zero rows. In the other branch
  \<open>_.set\<close> is applied with the root key as path and its result is overwritten by
  \<open>value\<close>; what that call writes into the old cached object is seen only through a
  value that shares the object, which the embedding takes not to happen (see the first
  section), so the call has no effect here.
\<close>

definition SqliteProvider_set :: "string \<Rightarrow> jsval \<Rightarrow> provider \<Rightarrow> row option \<times> provider" where
  "SqliteProvider_set key0 v st =
     (let unparsed = tl (split_dot key0);
          key = hd (split_dot key0);
          cachedData = cached_or_empty st key;
          lodashedData0 = lodash_set cachedData
                            (if length unparsed > 1 then unparsed else castPath key cachedData) v;
          lodashedData = (if length unparsed > 1 then lodashedData0 else v);
          c1 = (if length unparsed > 1 then (collection st)(key \<mapsto> lodashedData0)
                else (collection st)(key \<mapsto> v));
          fetchQuery = select_by_key (db st) key;
          t1 = (if int (length fetchQuery) < 0
                then insert_row (db st) key (JSON_stringify lodashedData) else db st);
          t2 = update_by_key t1 (JSON_stringify lodashedData) key
      in (first_row (select_by_key t2 key), \<lparr>collection = c1, db = t2\<rparr>))"

text \<open>
  The PostgreSQL provider: \<open>unparsed\<close> is defined exactly when the key has a dot, and
  the row is inserted when the probe returns no row. For a key without a dot the result
  of \<open>_.set\<close> is overwritten by \<open>value\<close>, with the same proviso on shared objects as in
  the SQLite provider.
\<close>

definition PostgresProvider_set :: "string \<Rightarrow> jsval \<Rightarrow> provider \<Rightarrow> row option \<times> provider" where
  "PostgresProvider_set key0 v st =
     (let unparsed = (if includes_dot key0 then Some (tl (split_dot key0)) else None);
          key = (if includes_dot key0 then hd (split_dot key0) else key0);
          cachedData = cached_or_empty st key;
          lodashedData0 = lodash_set cachedData
                            (case unparsed of Some path \<Rightarrow> path | None \<Rightarrow> castPath key cachedData) v;
          lodashedData = (case unparsed of Some path \<Rightarrow> lodashedData0 | None \<Rightarrow> v);
          c1 = (case unparsed of
                  Some path \<Rightarrow> (collection st)(key \<mapsto> lodashedData0)
                | None \<Rightarrow> (collection st)(key \<mapsto> v));
          fetchQuery = select_by_key (db st) key;
          t1 = (if length fetchQuery \<le> 0
                then insert_row (db st) key (JSON_stringify lodashedData) else db st);
          t2 = update_by_key t1 (JSON_stringify lodashedData) key
      in (first_row (select_by_key t2 key), \<lparr>collection = c1, db = t2\<rparr>))"

subsection \<open>get\<close>

text \<open>
  For a dotted key the root document is read into the local \<open>collection\<close> before the
  default is set, and \<open>_.get\<close> is applied to that local afterwards. The SQLite provider
  takes the default \<open>""\<close> for an omitted argument; the PostgreSQL provider passes
  \<open>defaultValue || ""\<close>.
\<close>

definition SqliteProvider_get :: "string \<Rightarrow> jsval option \<Rightarrow> provider \<Rightarrow> jsval option \<times> provider" where
  "SqliteProvider_get key dflt st =
     (let defaultValue = (case dflt of None \<Rightarrow> JStr [] | Some d \<Rightarrow> d) in
      if includes_dot key then
        let array = split_dot key;
            coll = collection st (hd array);
            exists = (hd array \<in> dom (collection st));
            prop = join_dot (tl array);
            st1 = (if \<not> exists then snd (SqliteProvider_set key defaultValue st) else st);
            data = lodash_get coll prop JNull
        in (Some data, st1)
      else
        let exists = (key \<in> dom (collection st));
            st1 = (if \<not> exists then snd (SqliteProvider_set key defaultValue st) else st);
            data = collection st1 key
        in (data, st1))"

definition PostgresProvider_get :: "string \<Rightarrow> jsval option \<Rightarrow> provider \<Rightarrow> jsval option \<times> provider" where
  "PostgresProvider_get key defaultValue st =
     (if includes_dot key then
        let array = split_dot key;
            coll = collection st (hd array);
            exists = (hd array \<in> dom (collection st));
            prop = join_dot (tl array);
            st1 = (if \<not> exists
                   then snd (PostgresProvider_set key (js_or defaultValue (JStr [])) st) else st);
            data = lodash_get coll prop JNull
        in (Some data, st1)
      else
        let exists = (key \<in> dom (collection st));
            st1 = (if \<not> exists
                   then snd (PostgresProvider_set key (js_or defaultValue (JStr [])) st) else st);
            data = collection st1 key
        in (data, st1))"

subsection \<open>fetch\<close>

text \<open>Both providers call \<open>get\<close> and return nothing: the result is \<open>undefined\<close>.\<close>

definition SqliteProvider_fetch :: "string \<Rightarrow> jsval option \<Rightarrow> provider \<Rightarrow> jsval option \<times> provider" where
  "SqliteProvider_fetch key dflt st = (None, snd (SqliteProvider_get key dflt st))"

definition PostgresProvider_fetch :: "string \<Rightarrow> jsval option \<Rightarrow> provider \<Rightarrow> jsval option \<times> provider" where
  "PostgresProvider_fetch key defaultValue st =
     (if (case defaultValue of None \<Rightarrow> False | Some d \<Rightarrow> truthy d)
      then (None, snd (PostgresProvider_get key defaultValue st))
      else (None, snd (PostgresProvider_get key None st)))"

subsection \<open>push\<close>

text \<open>
  \<open>fetched\<close> is read once, before the loop. In the loop only the array branch changes
  it, by \<open>fetched.push(v)\<close>; the other two branches build a new array for \<open>set\<close> and
  leave \<open>fetched\<close> as it was. The values are visited in order. What the PostgreSQL
  provider writes to the console is left out.
\<close>

fun SqliteProvider_push_loop :: "string \<Rightarrow> jsval option \<Rightarrow> jsval list \<Rightarrow> provider \<Rightarrow> provider" where
  "SqliteProvider_push_loop key fetched [] st = st"
| "SqliteProvider_push_loop key fetched (v # vs) st =
     (case fetched of
        None \<Rightarrow> SqliteProvider_push_loop key fetched vs (snd (SqliteProvider_set key (JArr [v]) st))
      | Some f \<Rightarrow>
          if \<not> truthy f
          then SqliteProvider_push_loop key fetched vs (snd (SqliteProvider_set key (JArr [v]) st))
          else (case f of
                  JArr xs \<Rightarrow> SqliteProvider_push_loop key (Some (JArr (xs @ [v]))) vs
                              (snd (SqliteProvider_set key (JArr (xs @ [v])) st))
                | _ \<Rightarrow> SqliteProvider_push_loop key fetched vs
                              (snd (SqliteProvider_set key (JArr [f, v]) st))))"

definition SqliteProvider_push :: "string \<Rightarrow> jsval list \<Rightarrow> provider \<Rightarrow> jsval option \<times> provider" where
  "SqliteProvider_push key vs st =
     (let (fetched, st1) = SqliteProvider_get key None st;
          st2 = SqliteProvider_push_loop key fetched vs st1
      in SqliteProvider_get key None st2)"

fun PostgresProvider_push_loop :: "string \<Rightarrow> jsval option \<Rightarrow> jsval list \<Rightarrow> provider \<Rightarrow> provider" where
  "PostgresProvider_push_loop key fetched [] st = st"
| "PostgresProvider_push_loop key fetched (v # vs) st =
     (case fetched of
        None \<Rightarrow> PostgresProvider_push_loop key fetched vs (snd (PostgresProvider_set key (JArr [v]) st))
      | Some f \<Rightarrow>
          if \<not> truthy f
          then PostgresProvider_push_loop key fetched vs (snd (PostgresProvider_set key (JArr [v]) st))
          else (case f of
                  JArr xs \<Rightarrow> PostgresProvider_push_loop key (Some (JArr (xs @ [v]))) vs
                              (snd (PostgresProvider_set key (JArr (xs @ [v])) st))
                | _ \<Rightarrow> PostgresProvider_push_loop key fetched vs
                              (snd (PostgresProvider_set key (JArr [f, v]) st))))"

definition PostgresProvider_push :: "string \<Rightarrow> jsval list \<Rightarrow> provider \<Rightarrow> jsval option \<times> provider" where
  "PostgresProvider_push key vs st =
     (let (fetched, st1) = PostgresProvider_get key None st;
          st2 = PostgresProvider_push_loop key fetched vs st1
      in PostgresProvider_get key None st2)"

subsection \<open>has\<close>

definition SqliteProvider_has :: "string \<Rightarrow> provider \<Rightarrow> bool \<times> provider" where
  "SqliteProvider_has key st =
     (if includes_dot key then
        let split = split_dot key;
            (coll, st1) = SqliteProvider_get (hd split) None st;
            prop = join_dot (tl split)
        in (lodash_has coll prop, st1)
      else (key \<in> dom (collection st), st))"

definition PostgresProvider_has :: "string \<Rightarrow> provider \<Rightarrow> bool \<times> provider" where
  "PostgresProvider_has key st =
     (if includes_dot key then
        let split = split_dot key;
            first = hd split;
            (coll, st1) = PostgresProvider_get first None st;
            prop = join_dot (tl split)
        in (lodash_has coll prop, st1)
      else (key \<in> dom (collection st), st))"

subsection \<open>all\<close>

text \<open>
  Every row is read from the table and its value parsed; a value that does not parse
  throws, which ends the call. The entries are collected in a \<open>Map\<close>, where a later row
  of the same key replaces the value of an earlier one, and returned as an object.
\<close>

datatype error = SyntaxError

fun all_rows :: "row list \<Rightarrow> (string \<times> jsval) list \<Rightarrow> error + jsval" where
  "all_rows [] data = Inr (JObj data)"
| "all_rows (r # rs) data =
     (case JSON_parse (rvalue r) of
        None \<Rightarrow> Inl SyntaxError
      | Some v \<Rightarrow> all_rows rs (AList.update (rkey r) v data))"

definition SqliteProvider_all :: "provider \<Rightarrow> error + jsval" where
  "SqliteProvider_all st = all_rows (select_all (db st)) []"

definition PostgresProvider_all :: "provider \<Rightarrow> error + jsval" where
  "PostgresProvider_all st = all_rows (select_all (db st)) []"

subsection \<open>Sample states\<close>

definition empty_provider :: provider where
  "empty_provider = \<lparr>collection = Map.empty, db = []\<rparr>"

definition user_doc :: jsval where
  "user_doc = JObj [(''money'', JNum 100)]"

definition user_table :: table where
  "user_table = [\<lparr>rkey = ''user'', rvalue = JSON_stringify user_doc\<rparr>]"

text \<open>
  A table that another client gave a row whose key is the dotted string \<open>a.b\<close>, loaded
  by \<open>init\<close> and followed by \<open>set("a.b", 1)\<close> in the PostgreSQL provider: the collection
  and the table hold an entry for \<open>a.b\<close> and one for its root \<open>a\<close>.
\<close>

definition dotted_table :: table where
  "dotted_table = [\<lparr>rkey = ''a.b'', rvalue = ''5''\<rparr>]"

definition dotted_provider :: provider where
  "dotted_provider =
     \<lparr>collection = [''a.b'' \<mapsto> JStr ''5'', ''a'' \<mapsto> JObj [(''b'', JNum 1)]],
      db = [\<lparr>rkey = ''a.b'', rvalue = ''5''\<rparr>,
            \<lparr>rkey = ''a'', rvalue = JSON_stringify (JObj [(''b'', JNum 1)])\<rparr>]\<rparr>"

definition user_provider :: provider where
  "user_provider = \<lparr>collection = Map.empty, db = user_table\<rparr>"

section \<open>Facts about the string operations and the table\<close>

lemma split_dot_not_Nil: "split_dot s \<noteq> []"
  by (induction s) (auto split: list.splits)

lemma hd_split_dot_no_dot: "CHR ''.'' \<notin> set (hd (split_dot s))"
proof (induction s)
  case Nil
  show ?case by simp
next
  case (Cons c cs)
  show ?case
  proof (cases "c = CHR ''.''")
    case True
    then show ?thesis by simp
  next
    case False
    obtain w ws where w: "split_dot cs = w # ws"
      using split_dot_not_Nil [of cs] by (cases "split_dot cs") auto
    with Cons False show ?thesis by simp
  qed
qed

lemma root_differs_from_dotted_key:
  assumes "includes_dot key"
  shows "hd (split_dot key) \<noteq> key"
proof
  assume "hd (split_dot key) = key"
  then have "CHR ''.'' \<notin> set key"
    using hd_split_dot_no_dot [of key] by simp
  with assms show False by (simp add: includes_dot_def)
qed

lemma select_after_delete_other:
  "k \<noteq> k' \<Longrightarrow> select_by_key (delete_by_key t k') k = select_by_key t k"
  by (induction t) (auto simp: select_by_key_def delete_by_key_def)

lemma update_without_match:
  "filter (\<lambda>r. rkey r = k) t = [] \<Longrightarrow> update_by_key t v k = t"
  by (induction t) (auto simp: update_by_key_def split: if_splits)

lemma update_after_insert:
  assumes "select_by_key t k = []"
  shows "update_by_key (insert_row t k v) v k = t @ [\<lparr>rkey = k, rvalue = v\<rparr>]"
proof -
  have "update_by_key t v k = t"
    using assms by (simp add: select_by_key_def update_without_match)
  then show ?thesis
    by (simp add: update_by_key_def insert_row_def)
qed

text \<open>
  The SQLite provider's \<open>set\<close> never adds a row: the test \<open>fetchQuery.length < 0\<close> before
  its INSERT cannot hold, and UPDATE keeps the keys of the table.
\<close>

lemma SqliteProvider_set_keeps_keys:
  "map rkey (db (snd (SqliteProvider_set key v st))) = map rkey (db st)"
  by (simp add: SqliteProvider_set_def Let_def update_by_key_def comp_def)

text \<open>
  The PostgreSQL provider's \<open>set\<close> on a root without a row appends one row, which holds
  the serialized document that the collection holds for the root afterwards.
\<close>

lemma PostgresProvider_set_inserts:
  assumes "root = (if includes_dot key then hd (split_dot key) else key)"
    and "select_by_key (db st) root = []"
  shows "\<exists>doc. collection (snd (PostgresProvider_set key v st)) root = Some doc
           \<and> db (snd (PostgresProvider_set key v st))
               = db st @ [\<lparr>rkey = root, rvalue = JSON_stringify doc\<rparr>]"
  using assms
  by (cases "includes_dot key") (simp_all add: PostgresProvider_set_def Let_def update_after_insert)

text \<open>
  For a dotted key, \<open>has\<close> reads the root through \<open>get\<close>, which sets the default \<open>""\<close>
  for a root that is not cached: on the empty PostgreSQL provider \<open>has("a.b")\<close> is false
  and leaves the root \<open>a\<close> in the collection and a row for it in the table.
\<close>

lemma has_dotted_key_creates_default:
  "fst (PostgresProvider_has ''a.b'' empty_provider) = False
   \<and> collection (snd (PostgresProvider_has ''a.b'' empty_provider)) ''a'' = Some (JStr [])
   \<and> db (snd (PostgresProvider_has ''a.b'' empty_provider))
       = [\<lparr>rkey = ''a'', rvalue = JSON_stringify (JStr [])\<rparr>]"
  by code_simp

subsection \<open>What the operations do on every input\<close>

lemma split_dot_without_dot: "\<not> includes_dot s \<Longrightarrow> split_dot s = [s]"
  by (induction s) (auto simp: includes_dot_def)

text \<open>
  The SQLite provider's \<open>set\<close> with a key of at most one dot stores the value as the
  whole document of the root.
\<close>

lemma SqliteProvider_set_one_segment:
  assumes "length (split_dot key) \<le> 2"
  shows "collection (snd (SqliteProvider_set key v st)) (hd (split_dot key)) = Some v"
proof -
  from assms have "\<not> length (tl (split_dot key)) > 1" by simp
  then show ?thesis by (simp add: SqliteProvider_set_def Let_def)
qed

text \<open>
  \<open>get\<close> with a dotted key whose root is not cached returns \<open>null\<close>, whatever the
  default.
\<close>

lemma get_dotted_miss_always_null:
  assumes "includes_dot key" and "collection st (hd (split_dot key)) = None"
  shows "fst (SqliteProvider_get key d st) = Some JNull"
    and "fst (PostgresProvider_get key d st) = Some JNull"
  using assms
  by (simp_all add: SqliteProvider_get_def PostgresProvider_get_def Let_def lodash_get_def)

text \<open>\<open>get\<close> always returns a value and \<open>fetch\<close> never does.\<close>

lemma set_caches_root:
  "\<not> includes_dot key \<Longrightarrow> collection (snd (SqliteProvider_set key v st)) key = Some v"
  "\<not> includes_dot key \<Longrightarrow> collection (snd (PostgresProvider_set key v st)) key = Some v"
  by (simp_all add: SqliteProvider_set_def PostgresProvider_set_def Let_def split_dot_without_dot)

lemma get_returns_a_value:
  "fst (SqliteProvider_get key d st) \<noteq> None"
  "fst (PostgresProvider_get key d st) \<noteq> None"
  by (auto simp: SqliteProvider_get_def PostgresProvider_get_def Let_def set_caches_root)

lemma fetch_returns_no_value:
  "fst (SqliteProvider_fetch key d st) = None"
  "fst (PostgresProvider_fetch key d st) = None"
  by (simp_all add: SqliteProvider_fetch_def PostgresProvider_fetch_def)

text \<open>After \<open>init\<close> the collection holds a string for every key of the table.\<close>

lemma load_rows_caches_strings:
  "k \<in> set (map rkey rs) \<Longrightarrow> \<exists>s. load_rows rs c k = Some (JStr s)"
  by (induction rs arbitrary: c rule: rev_induct) (auto simp: load_rows_def)

lemma init_caches_strings:
  assumes "r \<in> set (db st)"
  shows "\<exists>s. collection (SqliteProvider_init st) (rkey r) = Some (JStr s)"
    and "\<exists>s. collection (PostgresProvider_init st) (rkey r) = Some (JStr s)"
  using assms load_rows_caches_strings [of "rkey r" "db st" "collection st"]
  by (simp_all add: SqliteProvider_init_def PostgresProvider_init_def select_all_def)

text \<open>The sample state with the dotted row is reached by \<open>init\<close> and \<open>set\<close>.\<close>

lemma dotted_provider_reached:
  "db (snd (PostgresProvider_set ''a.b'' (JNum 1)
         (PostgresProvider_init \<lparr>collection = Map.empty, db = dotted_table\<rparr>)))
     = db dotted_provider
   \<and> collection (snd (PostgresProvider_set ''a.b'' (JNum 1)
         (PostgresProvider_init \<lparr>collection = Map.empty, db = dotted_table\<rparr>))) ''a''
     = collection dotted_provider ''a''
   \<and> collection (snd (PostgresProvider_set ''a.b'' (JNum 1)
         (PostgresProvider_init \<lparr>collection = Map.empty, db = dotted_table\<rparr>))) ''a.b''
     = collection dotted_provider ''a.b''"
  by code_simp

section \<open>The operations on root-only keys and on dotted keys\<close>

text \<open>
  C9. For a key without a dot, \<open>has\<close> answers whether the key is in the collection and
  changes nothing: the provider after the call is the provider before it, in the SQLite
  and in the PostgreSQL provider.
\<close>

theorem has_root_key_no_mutation:
  assumes "\<not> includes_dot key"
  shows "SqliteProvider_has key st = (key \<in> dom (collection st), st)
       \<and> PostgresProvider_has key st = (key \<in> dom (collection st), st)"
  using assms by (simp add: SqliteProvider_has_def PostgresProvider_has_def)

theorem has_root_key_no_mutation_witness:
  "\<not> includes_dot ''john''
   \<and> SqliteProvider_has ''john'' empty_provider = (False, empty_provider)
   \<and> PostgresProvider_has ''john'' empty_provider = (False, empty_provider)"
  using has_root_key_no_mutation [of "''john''" empty_provider]
  by (simp add: includes_dot_def empty_provider_def)

text \<open>
  C10. \<open>delete\<close> does not split its key. For every key, dotted or not, it removes
  exactly the rows whose key is the whole string and the collection entry of the whole
  string, in both providers. For a dotted key the root (the segment before the first
  dot) is a different string, so the collection entry and the rows of the root are what
  they were before the call: the document of the root is not touched.
\<close>

theorem delete_removes_full_key_only:
  "collection (SqliteProvider_delete key st) = (collection st)(key := None)
   \<and> db (SqliteProvider_delete key st) = filter (\<lambda>r. rkey r \<noteq> key) (db st)
   \<and> collection (PostgresProvider_delete key st) = (collection st)(key := None)
   \<and> db (PostgresProvider_delete key st) = filter (\<lambda>r. rkey r \<noteq> key) (db st)
   \<and> (includes_dot key \<longrightarrow>
        collection (SqliteProvider_delete key st) (hd (split_dot key))
          = collection st (hd (split_dot key))
        \<and> select_by_key (db (SqliteProvider_delete key st)) (hd (split_dot key))
          = select_by_key (db st) (hd (split_dot key))
        \<and> collection (PostgresProvider_delete key st) (hd (split_dot key))
          = collection st (hd (split_dot key))
        \<and> select_by_key (db (PostgresProvider_delete key st)) (hd (split_dot key))
          = select_by_key (db st) (hd (split_dot key)))"
proof -
  have removal:
    "collection (SqliteProvider_delete key st) = (collection st)(key := None)
     \<and> db (SqliteProvider_delete key st) = filter (\<lambda>r. rkey r \<noteq> key) (db st)
     \<and> collection (PostgresProvider_delete key st) = (collection st)(key := None)
     \<and> db (PostgresProvider_delete key st) = filter (\<lambda>r. rkey r \<noteq> key) (db st)"
    by (simp add: SqliteProvider_delete_def PostgresProvider_delete_def delete_by_key_def)
  have frame:
    "collection (SqliteProvider_delete key st) (hd (split_dot key))
       = collection st (hd (split_dot key))
     \<and> select_by_key (db (SqliteProvider_delete key st)) (hd (split_dot key))
       = select_by_key (db st) (hd (split_dot key))
     \<and> collection (PostgresProvider_delete key st) (hd (split_dot key))
       = collection st (hd (split_dot key))
     \<and> select_by_key (db (PostgresProvider_delete key st)) (hd (split_dot key))
       = select_by_key (db st) (hd (split_dot key))"
    if dotted: "includes_dot key"
  proof -
    have neq: "hd (split_dot key) \<noteq> key"
      using dotted by (rule root_differs_from_dotted_key)
    have sel: "select_by_key (delete_by_key (db st) key) (hd (split_dot key))
               = select_by_key (db st) (hd (split_dot key))"
      using neq by (rule select_after_delete_other)
    show ?thesis
      using neq sel by (simp add: SqliteProvider_delete_def PostgresProvider_delete_def)
  qed
  from removal frame show ?thesis by blast
qed

text \<open>
  The theorem at the sample state with the dotted row: \<open>delete("a.b")\<close> removes the entry
  and the row of \<open>a.b\<close>, which were there, and keeps those of the root \<open>a\<close>;
  \<open>delete("a")\<close> removes the entry and the row of \<open>a\<close> and keeps those of \<open>a.b\<close>.
\<close>

theorem delete_removes_full_key_only_witness:
  "includes_dot ''a.b''
   \<and> collection dotted_provider ''a.b'' = Some (JStr ''5'')
   \<and> select_by_key (db dotted_provider) ''a.b'' = [\<lparr>rkey = ''a.b'', rvalue = ''5''\<rparr>]
   \<and> collection (SqliteProvider_delete ''a.b'' dotted_provider) ''a.b'' = None
   \<and> db (SqliteProvider_delete ''a.b'' dotted_provider)
       = [\<lparr>rkey = ''a'', rvalue = JSON_stringify (JObj [(''b'', JNum 1)])\<rparr>]
   \<and> collection (SqliteProvider_delete ''a.b'' dotted_provider) ''a'' = Some (JObj [(''b'', JNum 1)])
   \<and> select_by_key (db (SqliteProvider_delete ''a.b'' dotted_provider)) ''a''
       = [\<lparr>rkey = ''a'', rvalue = JSON_stringify (JObj [(''b'', JNum 1)])\<rparr>]
   \<and> collection (PostgresProvider_delete ''a.b'' dotted_provider) ''a.b'' = None
   \<and> db (PostgresProvider_delete ''a.b'' dotted_provider)
       = [\<lparr>rkey = ''a'', rvalue = JSON_stringify (JObj [(''b'', JNum 1)])\<rparr>]
   \<and> collection (PostgresProvider_delete ''a.b'' dotted_provider) ''a'' = Some (JObj [(''b'', JNum 1)])
   \<and> select_by_key (db (PostgresProvider_delete ''a.b'' dotted_provider)) ''a''
       = [\<lparr>rkey = ''a'', rvalue = JSON_stringify (JObj [(''b'', JNum 1)])\<rparr>]
   \<and> collection (SqliteProvider_delete ''a'' dotted_provider) ''a'' = None
   \<and> db (SqliteProvider_delete ''a'' dotted_provider) = [\<lparr>rkey = ''a.b'', rvalue = ''5''\<rparr>]
   \<and> collection (SqliteProvider_delete ''a'' dotted_provider) ''a.b'' = Some (JStr ''5'')
   \<and> collection (PostgresProvider_delete ''a'' dotted_provider) ''a'' = None
   \<and> db (PostgresProvider_delete ''a'' dotted_provider) = [\<lparr>rkey = ''a.b'', rvalue = ''5''\<rparr>]
   \<and> collection (PostgresProvider_delete ''a'' dotted_provider) ''a.b'' = Some (JStr ''5'')"
  using delete_removes_full_key_only [of "''a.b''" dotted_provider]
    delete_removes_full_key_only [of "''a''" dotted_provider]
  by (simp add: includes_dot_def dotted_provider_def select_by_key_def)

section \<open>Where the providers part from the specification\<close>

text \<open>
  C1. The specification asks that after \<open>set("a.b", v)\<close> the call \<open>get("a.b")\<close> returns
  \<open>v\<close> and \<open>get("a")\<close> a document that contains \<open>{b: v}\<close>. The SQLite provider takes a
  path of one segment for a root-only key (\<open>unparsed.length > 1\<close>) and stores \<open>v\<close> as the
  whole document of the root: on the empty provider, after \<open>set("a.b", 1)\<close>, \<open>get("a.b")\<close>
  is \<open>null\<close> and \<open>get("a")\<close> is \<open>1\<close>. The PostgreSQL provider returns \<open>1\<close> and \<open>{b: 1}\<close>.
\<close>

theorem sqlite_set_nested_key_stores_under_root:
  "fst (SqliteProvider_get ''a.b'' None (snd (SqliteProvider_set ''a.b'' (JNum 1) empty_provider)))
     = Some JNull
   \<and> fst (SqliteProvider_get ''a'' None (snd (SqliteProvider_set ''a.b'' (JNum 1) empty_provider)))
     = Some (JNum 1)
   \<and> fst (PostgresProvider_get ''a.b'' None (snd (PostgresProvider_set ''a.b'' (JNum 1) empty_provider)))
     = Some (JNum 1)
   \<and> fst (PostgresProvider_get ''a'' None (snd (PostgresProvider_set ''a.b'' (JNum 1) empty_provider)))
     = Some (JObj [(''b'', JNum 1)])"
  by code_simp

text \<open>
  C2. The specification asks for one contract in both providers. On the empty provider
  \<open>set("a", 1)\<close> returns no row and leaves the table empty in the SQLite provider, and
  returns the row and leaves it in the table in the PostgreSQL provider.
\<close>

theorem providers_differ_on_first_set:
  "fst (SqliteProvider_set ''a'' (JNum 1) empty_provider) = None
   \<and> db (snd (SqliteProvider_set ''a'' (JNum 1) empty_provider)) = []
   \<and> fst (PostgresProvider_set ''a'' (JNum 1) empty_provider) = Some \<lparr>rkey = ''a'', rvalue = ''1''\<rparr>
   \<and> db (snd (PostgresProvider_set ''a'' (JNum 1) empty_provider)) = [\<lparr>rkey = ''a'', rvalue = ''1''\<rparr>]"
  by code_simp

text \<open>
  C3. The specification asks that after \<open>set\<close> the collection entry of the root equals the
  deserialized row of the root. After \<open>set("user", {money: 100})\<close> on the empty SQLite
  provider the collection holds the document and the table holds no row for \<open>user\<close>. In
  the PostgreSQL provider the row is there and parses to the document.
\<close>

theorem sqlite_set_leaves_cache_without_row:
  "collection (snd (SqliteProvider_set ''user'' user_doc empty_provider)) ''user'' = Some user_doc
   \<and> select_by_key (db (snd (SqliteProvider_set ''user'' user_doc empty_provider))) ''user'' = []
   \<and> collection (snd (PostgresProvider_set ''user'' user_doc empty_provider)) ''user'' = Some user_doc
   \<and> map (\<lambda>r. JSON_parse (rvalue r))
        (select_by_key (db (snd (PostgresProvider_set ''user'' user_doc empty_provider))) ''user'')
     = [Some user_doc]"
  by code_simp

text \<open>
  C4. The specification asks that \<open>set\<close> on a root without a row inserts the row, so that
  \<open>all()\<close> after \<open>set("p", 1)\<close> and \<open>set("q", 2)\<close> contains both roots. In the SQLite
  provider the table is still empty after the two calls and \<open>all()\<close> is the empty object;
  the PostgreSQL provider returns \<open>{p: 1, q: 2}\<close>.
\<close>

theorem sqlite_set_never_reaches_all:
  "db (snd (SqliteProvider_set ''q'' (JNum 2) (snd (SqliteProvider_set ''p'' (JNum 1) empty_provider))))
     = []
   \<and> SqliteProvider_all
        (snd (SqliteProvider_set ''q'' (JNum 2) (snd (SqliteProvider_set ''p'' (JNum 1) empty_provider))))
     = Inr (JObj [])
   \<and> PostgresProvider_all
        (snd (PostgresProvider_set ''q'' (JNum 2) (snd (PostgresProvider_set ''p'' (JNum 1) empty_provider))))
     = Inr (JObj [(''p'', JNum 1), (''q'', JNum 2)])"
  by code_simp

text \<open>
  C5. The specification asks that \<open>init\<close> fills the collection with the deserialized row
  values. Both providers store the text of the row: with the one row
  \<open>user \<mapsto> {"money":100}\<close>, whose value parses to the document \<open>{money: 100}\<close>, the
  collection holds the string after \<open>init\<close>, \<open>get("user")\<close> returns the string and
  \<open>get("user.money")\<close> returns \<open>null\<close>.
\<close>

theorem init_caches_serialized_text:
  "map (\<lambda>r. JSON_parse (rvalue r)) (db user_provider) = [Some user_doc]
   \<and> collection (SqliteProvider_init user_provider) ''user'' = Some (JStr (JSON_stringify user_doc))
   \<and> fst (SqliteProvider_get ''user'' None (SqliteProvider_init user_provider))
     = Some (JStr (JSON_stringify user_doc))
   \<and> fst (SqliteProvider_get ''user.money'' None (SqliteProvider_init user_provider)) = Some JNull
   \<and> collection (PostgresProvider_init user_provider) ''user'' = Some (JStr (JSON_stringify user_doc))
   \<and> fst (PostgresProvider_get ''user'' None (PostgresProvider_init user_provider))
     = Some (JStr (JSON_stringify user_doc))
   \<and> fst (PostgresProvider_get ''user.money'' None (PostgresProvider_init user_provider)) = Some JNull"
  by code_simp

text \<open>
  C6. The specification asks that \<open>get\<close> on a root that is not cached sets the default
  and returns it, for root-only and for dotted keys. For a dotted key both providers
  apply \<open>_.get\<close> to the document read before the default was set: on the empty provider
  \<open>get("a.b", "x")\<close> returns \<open>null\<close>, although the PostgreSQL provider has stored
  \<open>{b: "x"}\<close> for the root and returns \<open>"x"\<close> when asked again. For the root-only key
  \<open>get("a", "x")\<close> returns \<open>"x"\<close>.
\<close>

theorem get_dotted_miss_returns_null:
  "fst (PostgresProvider_get ''a.b'' (Some (JStr ''x'')) empty_provider) = Some JNull
   \<and> collection (snd (PostgresProvider_get ''a.b'' (Some (JStr ''x'')) empty_provider)) ''a''
     = Some (JObj [(''b'', JStr ''x'')])
   \<and> fst (PostgresProvider_get ''a.b'' (Some (JStr ''x''))
           (snd (PostgresProvider_get ''a.b'' (Some (JStr ''x'')) empty_provider)))
     = Some (JStr ''x'')
   \<and> fst (PostgresProvider_get ''a'' (Some (JStr ''x'')) empty_provider) = Some (JStr ''x'')
   \<and> fst (SqliteProvider_get ''a.b'' (Some (JStr ''x'')) empty_provider) = Some JNull
   \<and> fst (SqliteProvider_get ''a'' (Some (JStr ''x'')) empty_provider) = Some (JStr ''x'')"
  by code_simp

text \<open>
  C7. The specification asks that \<open>push\<close> takes the value it has just set as the current
  one for the next value, so that \<open>push(k, v1, v2)\<close> on an unset key yields \<open>[v1, v2]\<close>.
  Both providers test the value read before the loop each time: on the empty provider
  \<open>push("k", 1, 2)\<close> yields \<open>[2]\<close>. Two calls, \<open>push("k", 1)\<close> and then \<open>push("k", 2)\<close>,
  yield \<open>[1, 2]\<close> in the PostgreSQL provider.
\<close>

theorem push_two_values_keeps_last:
  "fst (PostgresProvider_push ''k'' [JNum 1, JNum 2] empty_provider) = Some (JArr [JNum 2])
   \<and> fst (SqliteProvider_push ''k'' [JNum 1, JNum 2] empty_provider) = Some (JArr [JNum 2])
   \<and> fst (PostgresProvider_push ''k'' [JNum 2] (snd (PostgresProvider_push ''k'' [JNum 1] empty_provider)))
     = Some (JArr [JNum 1, JNum 2])"
  by code_simp

text \<open>
  C8. The specification asks that \<open>fetch\<close> returns what \<open>get\<close> returns. In both providers
  \<open>fetch\<close> calls \<open>get\<close> and returns nothing: on the empty provider \<open>fetch("a", "x")\<close> is
  \<open>undefined\<close> where \<open>get("a", "x")\<close> is \<open>"x"\<close>.
\<close>

theorem fetch_returns_undefined:
  "fst (SqliteProvider_fetch ''a'' (Some (JStr ''x'')) empty_provider) = None
   \<and> fst (SqliteProvider_get ''a'' (Some (JStr ''x'')) empty_provider) = Some (JStr ''x'')
   \<and> fst (PostgresProvider_fetch ''a'' (Some (JStr ''x'')) empty_provider) = None
   \<and> fst (PostgresProvider_get ''a'' (Some (JStr ''x'')) empty_provider) = Some (JStr ''x'')"
  by code_simp

end
